theory Spec2Isabelle
  imports Main
begin

section \<open>The rule \<open>manifest-exists\<close>: data model\<close>

text \<open>
  The rule of \<^verbatim>\<open>src/lib/rules/manifest-exists/manifest-exists.ts\<close> registers two
  handlers over one closure variable, \<^verbatim>\<open>manifestIsSpecified\<close>. Everything the handlers do
  beyond updating that variable is a call to a collaborator: \<^verbatim>\<open>element.getAttribute\<close>,
  \<^verbatim>\<open>context.report\<close>, \<^verbatim>\<open>url.parse\<close>, \<^verbatim>\<open>url.resolve\<close>, \<^verbatim>\<open>context.fetchContent\<close> and
  \<^verbatim>\<open>debug\<close>. The embedding threads the variable through the handlers and returns the
  collaborator calls, in program order, as a list of effects.
\<close>

text \<open>
  The types of the events and of the context are declared in \<^verbatim>\<open>../../types\<close> and
  \<^verbatim>\<open>../../rule-context\<close>, which are not in the repository; sections 3 and 6 of the spec
  describe them. \<^verbatim>\<open>element.getAttribute\<close>, \<^verbatim>\<open>context.report\<close> and \<^verbatim>\<open>debug\<close> are taken
  to return normally; \<^verbatim>\<open>context.fetchContent\<close>, \<^verbatim>\<open>url.parse\<close> and \<^verbatim>\<open>url.resolve\<close> may
  fail.
\<close>

text \<open>
  Modelled from the spec: the declaration of the element type is missing. An element is
  an object with an identity and attributes; \<^verbatim>\<open>getAttribute\<close> returns the attribute's
  value or \<^verbatim>\<open>null\<close> (\<open>None\<close>).
\<close>

datatype element = Element (ident: nat) (attributes: "(string \<times> string) list")

definition getAttribute :: "element \<Rightarrow> string \<Rightarrow> string option" where
  "getAttribute el name = map_of (attributes el) name"

text \<open>
  Modelled from the spec: the declaration of \<^verbatim>\<open>ElementFoundEvent\<close> is missing. The rule
  reads its element and its resource, the URL of the document.
\<close>

record ElementFoundEvent =
  element :: element
  resource :: string

text \<open>A rejected promise or a thrown exception carries an error value.\<close>

datatype js_error = JsError string

text \<open>
  Modelled from the spec: the declaration of the result of \<^verbatim>\<open>context.fetchContent\<close> is
  missing. The rule reads \<^verbatim>\<open>statusCode\<close> only: a number or \<^verbatim>\<open>null\<close>. Status codes are
  integers.
\<close>

record NetworkData =
  statusCode :: "int option"

text \<open>
  Modelled from the spec: the declaration of \<^verbatim>\<open>RuleContext\<close> is missing.
  \<^verbatim>\<open>fetchContent\<close> either fulfils with the network data or rejects; \<^verbatim>\<open>report\<close> is
  the \<open>Report\<close> effect below.
\<close>

record RuleContext =
  fetchContent :: "string \<Rightarrow> js_error + NetworkData"

text \<open>
  Node's \<^verbatim>\<open>url\<close> module (imported at line 10) is not part of the repository. The rule uses
  \<^verbatim>\<open>url.parse(s).protocol\<close>, a string or \<^verbatim>\<open>null\<close>, and \<^verbatim>\<open>url.resolve(from, to)\<close>; both
  enter the embedding as parameters. Either call may throw instead of returning
  (\<^verbatim>\<open>url.parse\<close> throws a \<^verbatim>\<open>URIError\<close> on a reference whose user information cannot be
  decoded), so each returns an error or a value.
\<close>

record url_module =
  parse_protocol :: "string \<Rightarrow> js_error + string option"
  resolve :: "string \<Rightarrow> string \<Rightarrow> js_error + string"

text \<open>The closure variable of \<^verbatim>\<open>create\<close> (line 24).\<close>

record rule_state =
  manifestIsSpecified :: bool

definition initial_state :: rule_state where
  "initial_state = \<lparr>manifestIsSpecified = False\<rparr>"

text \<open>The collaborator calls a handler makes.\<close>

datatype effect =
    GetAttribute element string
  | Report "string option" "element option" string
  | UrlParse string
  | UrlResolve string string
  | FetchContent string
  | Debug string

text \<open>A finding is the argument triple of one \<^verbatim>\<open>context.report\<close> call.\<close>

type_synonym finding = "string option \<times> element option \<times> string"

fun reports :: "effect list \<Rightarrow> finding list" where
  "reports [] = []"
| "reports (Report r e m # tr) = (r, e, m) # reports tr"
| "reports (_ # tr) = reports tr"


section \<open>JavaScript values\<close>

text \<open>
  Truthiness, as \<^verbatim>\<open>!manifestHref\<close>, \<^verbatim>\<open>url.parse(..).protocol\<close> and \<^verbatim>\<open>statusCode && ...\<close>
  use it: \<^verbatim>\<open>null\<close> and the empty string are falsy, and so is the number 0.
\<close>

fun truthy_string :: "string option \<Rightarrow> bool" where
  "truthy_string None = False"
| "truthy_string (Some s) = (s \<noteq> [])"

fun truthy_number :: "int option \<Rightarrow> bool" where
  "truthy_number None = False"
| "truthy_number (Some n) = (n \<noteq> 0)"

text \<open>
  A number inside a template literal is converted by \<^verbatim>\<open>Number::toString\<close>. A JavaScript
  number is a double. An integer below two to the 53 is a double and is written as its
  decimal numeral; a larger one stands for the double nearest to it, which is written
  with the fewest digits that identify it.
\<close>

text \<open>The decimal numeral of a non-negative integer.\<close>

definition digit_char :: "int \<Rightarrow> char" where
  "digit_char d = char_of (48 + d)"

function decimal :: "int \<Rightarrow> string" where
  "decimal n =
     (if n < 10 then [digit_char n]
      else decimal (n div 10) @ [digit_char (n mod 10)])"
  by pat_completeness auto
termination
  by (relation "measure nat") auto

declare decimal.simps [simp del]

text \<open>
  The number of binary digits of a positive integer, and the double nearest to it,
  ties going to the even significand (\<open>None\<close> where that is \<^verbatim>\<open>Infinity\<close>): with more
  than 53 binary digits, the integer is rounded to a multiple of the power of two that
  leaves 53.
\<close>

function bit_length :: "int \<Rightarrow> nat" where
  "bit_length n = (if n \<le> 0 then 0 else Suc (bit_length (n div 2)))"
  by pat_completeness auto
termination
  by (relation "measure nat") auto

declare bit_length.simps [simp del]

definition to_double :: "int \<Rightarrow> int option" where
  "to_double x =
     (if bit_length x \<le> 53 then Some x
      else
        let ulp = 2 ^ (bit_length x - 53);
            q = x div ulp;
            r = x mod ulp;
            m = (if ulp < 2 * r \<or> (2 * r = ulp \<and> odd q) then (q + 1) * ulp else q * ulp)
        in if m < 2 ^ 1024 then Some m else None)"

text \<open>
  \<^verbatim>\<open>Number::toString\<close> takes integers \<open>n\<close>, \<open>k\<close> and \<open>s\<close>, with \<open>s\<close> of \<open>k\<close> digits, such
  that \<open>s\<close> times ten to the \<open>n - k\<close> is, as a double, the number \<open>m\<close>, and \<open>k\<close> is as small
  as possible; of several \<open>s\<close> it takes the closest to \<open>m\<close>, and of two equally close
  the even one. For a given \<open>k\<close> the candidates are the first \<open>k\<close> digits of \<open>m\<close>, or one
  more, and \<open>n\<close> is the length of \<open>m\<close>, or one more. Seventeen digits always suffice.
\<close>

definition candidates :: "int \<Rightarrow> nat \<Rightarrow> (int \<times> nat) list" where
  "candidates m k =
     [(s, n).
        n \<leftarrow> [length (decimal m), Suc (length (decimal m))],
        k \<le> n,
        s \<leftarrow> [m div 10 ^ (n - k), m div 10 ^ (n - k) + 1],
        10 ^ (k - 1) \<le> s, s < 10 ^ k,
        to_double (s * 10 ^ (n - k)) = Some m]"

fun distance :: "int \<Rightarrow> nat \<Rightarrow> int \<times> nat \<Rightarrow> int" where
  "distance m k (s, n) = \<bar>s * 10 ^ (n - k) - m\<bar>"

fun closest :: "int \<Rightarrow> nat \<Rightarrow> (int \<times> nat) list \<Rightarrow> (int \<times> nat) option" where
  "closest m k [] = None"
| "closest m k (c # cs) =
     (case closest m k cs of
        None \<Rightarrow> Some c
      | Some c' \<Rightarrow>
          if distance m k c < distance m k c'
             \<or> (distance m k c = distance m k c' \<and> even (fst c))
          then Some c else Some c')"

fun shortest :: "int \<Rightarrow> nat list \<Rightarrow> (nat \<times> int \<times> nat) option" where
  "shortest m [] = None"
| "shortest m (k # ks) =
     (case closest m k (candidates m k) of
        Some (s, n) \<Rightarrow> Some (k, s, n)
      | None \<Rightarrow> shortest m ks)"

fun shortest_double :: "int option \<Rightarrow> (nat \<times> int \<times> nat) option" where
  "shortest_double None = None"
| "shortest_double (Some m) = shortest m [1 ..< 18]"

text \<open>
  Up to 21 digits the digits of \<open>s\<close> are followed by zeros; beyond, the number is written
  with an exponent.
\<close>

fun render :: "(nat \<times> int \<times> nat) option \<Rightarrow> string" where
  "render None = ''Infinity''"
| "render (Some (k, s, n)) =
     (if n \<le> 21 then decimal s @ replicate (n - k) CHR ''0''
      else if k = 1 then decimal s @ ''e+'' @ decimal (int n - 1)
      else take 1 (decimal s) @ ''.'' @ drop 1 (decimal s)
           @ ''e+'' @ decimal (int n - 1))"

text \<open>
  The conversion of line 88, on an integer: its sign, then the conversion of the double
  that the integer denotes.
\<close>

definition number_toString :: "int \<Rightarrow> string" where
  "number_toString i =
     (if i < 0 then CHR ''-'' # render (shortest_double (to_double (- i)))
      else if i = 0 then ''0''
      else render (shortest_double (to_double i)))"

section \<open>The handlers\<close>

text \<open>
  \<^verbatim>\<open>manifestWasSpecified\<close> (lines 26 to 34), the handler of \<^verbatim>\<open>traverse::end\<close>.
\<close>

definition manifestWasSpecified :: "rule_state \<Rightarrow> rule_state \<times> effect list" where
  "manifestWasSpecified st =
     (if \<not> manifestIsSpecified st
      then (st, [Report None None ''Web app manifest not specified''])
      else (st, []))"

text \<open>
  The message of line 64 contains single quotes, which a string literal of this
  theory cannot end with: the closing quote is appended as a character (code 39).
\<close>

definition invalid_href_message :: string where
  "invalid_href_message =
     ''Web app manifest specified with invalid 'href'' @ [CHR 0x27]"

text \<open>
  \<^verbatim>\<open>manifestExists\<close> (lines 36 to 99), the handler of \<^verbatim>\<open>element::link\<close>, is an
  \<^verbatim>\<open>async\<close> function with one \<^verbatim>\<open>await\<close>. It runs synchronously up to the call of
  \<^verbatim>\<open>context.fetchContent\<close> (line 82) and is suspended there; what it still holds then is
  the resource, the element and the manifest URL.
\<close>

datatype suspended =
  AwaitFetch (s_resource: string) (s_element: element) (s_manifestURL: string)

text \<open>
  How the synchronous part of the handler ends: it has returned, its promise being
  fulfilled; or it has thrown, its promise being rejected; or it is suspended at the
  \<^verbatim>\<open>await\<close>.
\<close>

datatype progress = Returned | Rejected js_error | Suspended suspended

text \<open>
  Lines 37 to 82, up to the \<^verbatim>\<open>await\<close>. The result is the closure variable, the calls
  made, and how this part ends. \<^verbatim>\<open>url.parse\<close> and \<^verbatim>\<open>url.resolve\<close> (lines 72 to 75) are
  called before the \<^verbatim>\<open>try\<close> of line 81: what they throw is not caught.
\<close>

definition manifestExists_start ::
  "url_module \<Rightarrow> rule_state \<Rightarrow> ElementFoundEvent
     \<Rightarrow> rule_state \<times> effect list \<times> progress" where
  "manifestExists_start url st data =
     (let el = element data; res = resource data in
      if getAttribute el ''rel'' = Some ''manifest'' then
        if manifestIsSpecified st then
          (st,
           [GetAttribute el ''rel'',
            Report (Some res) (Some el) ''Web app manifest already specified''],
           Returned)
        else
          let st' = st\<lparr>manifestIsSpecified := True\<rparr>;
              manifestHref = getAttribute el ''href'' in
          (case manifestHref of
             None \<Rightarrow>
               (st',
                [GetAttribute el ''rel'', GetAttribute el ''href'',
                 Report (Some res) (Some el) invalid_href_message],
                Returned)
           | Some href \<Rightarrow>
               if \<not> truthy_string (Some href) then
                 (st',
                  [GetAttribute el ''rel'', GetAttribute el ''href'',
                   Report (Some res) (Some el) invalid_href_message],
                  Returned)
               else
                 (case parse_protocol url href of
                    Inl e \<Rightarrow>
                      (st',
                       [GetAttribute el ''rel'', GetAttribute el ''href'', UrlParse href],
                       Rejected e)
                  | Inr protocol \<Rightarrow>
                      if truthy_string protocol then
                        (st',
                         [GetAttribute el ''rel'', GetAttribute el ''href'', UrlParse href,
                          FetchContent href],
                         Suspended (AwaitFetch res el href))
                      else
                        (case resolve url res href of
                           Inl e \<Rightarrow>
                             (st',
                              [GetAttribute el ''rel'', GetAttribute el ''href'',
                               UrlParse href, UrlResolve res href],
                              Rejected e)
                         | Inr manifestURL \<Rightarrow>
                             (st',
                              [GetAttribute el ''rel'', GetAttribute el ''href'',
                               UrlParse href, UrlResolve res href,
                               FetchContent manifestURL],
                              Suspended (AwaitFetch res el manifestURL)))))
      else (st, [GetAttribute el ''rel''], Returned))"

text \<open>
  Lines 82 to 96, from the \<^verbatim>\<open>await\<close> on. The \<^verbatim>\<open>try\<close> block first: a rejected
  \<^verbatim>\<open>fetchContent\<close> is thrown at the \<^verbatim>\<open>await\<close>; otherwise \<^verbatim>\<open>statusCode\<close> is tested
  (line 87) and interpolated into the message (line 88).
\<close>

definition fetch_try_block ::
  "suspended \<Rightarrow> js_error + NetworkData \<Rightarrow> effect list \<times> (js_error + unit)" where
  "fetch_try_block k outcome =
     (case outcome of
        Inl e \<Rightarrow> ([], Inl e)
      | Inr response \<Rightarrow>
          (case statusCode response of
             None \<Rightarrow> ([], Inr ())
           | Some code \<Rightarrow>
               if truthy_number (Some code) \<and> code \<noteq> 200 then
                 ([Report (Some (s_resource k)) (Some (s_element k))
                     (''Web app manifest file could not be fetched (status code: ''
                        @ number_toString code @ '')'')],
                  Inr ())
               else ([], Inr ())))"

text \<open>
  The \<^verbatim>\<open>catch\<close> clause (lines 93 to 96) handles whatever the \<^verbatim>\<open>try\<close> block threw. The
  second component is how the handler's promise settles: \<open>Inr ()\<close> fulfilled,
  \<open>Inl e\<close> rejected with \<open>e\<close>.
\<close>

definition manifestExists_resume ::
  "suspended \<Rightarrow> js_error + NetworkData \<Rightarrow> effect list \<times> (js_error + unit)" where
  "manifestExists_resume k outcome =
     (case fetch_try_block k outcome of
        (tr, Inl e) \<Rightarrow>
          (tr @ [Debug ''Failed to fetch the web app manifest file'',
                 Report (Some (s_resource k)) (Some (s_element k))
                   ''Web app manifest file request failed''],
           Inr ())
      | (tr, Inr u) \<Rightarrow> (tr, Inr u))"

text \<open>
  One invocation of \<^verbatim>\<open>manifestExists\<close> run to completion: the closure variable
  afterwards, every call made, and how the promise settles.
\<close>

definition manifestExists ::
  "url_module \<Rightarrow> RuleContext \<Rightarrow> rule_state \<Rightarrow> ElementFoundEvent
     \<Rightarrow> rule_state \<times> effect list \<times> (js_error + unit)" where
  "manifestExists url context st data =
     (case manifestExists_start url st data of
        (st', tr, Returned) \<Rightarrow> (st', tr, Inr ())
      | (st', tr, Rejected e) \<Rightarrow> (st', tr, Inl e)
      | (st', tr, Suspended k) \<Rightarrow>
          (case manifestExists_resume k (fetchContent context (s_manifestURL k)) of
             (tr', settled) \<Rightarrow> (st', tr @ tr', settled)))"

section \<open>The host: delivery of events\<close>

text \<open>
  The host's document scanner, which delivers the events to the two handlers, is not
  in the repository. Sections 4.1, 5 and 6 of the spec give its contract: it delivers one
  \<^verbatim>\<open>element::link\<close> event per link element, in document order; while a fetch is pending
  it may deliver further elements, so that a suspended handler is resumed at any later
  moment; and it issues \<^verbatim>\<open>traverse::end\<close> once, after every handler has completed.
\<close>

text \<open>
  Modelled from the spec: the scanner's event dispatch is missing. A traversal is a
  list of steps, each the delivery of an element or the settlement of the fetch that
  the suspended handler at some position awaits.
\<close>

datatype step = ElementLink ElementFoundEvent | FetchSettled nat

text \<open>
  Modelled from the spec: the scanner's run-time state is missing. It holds the rule's
  closure variable, the suspended handlers in order of suspension, the calls made so
  far, and the errors with which handlers have rejected.
\<close>

record config =
  c_state :: rule_state
  c_pending :: "suspended list"
  c_trace :: "effect list"
  c_rejected :: "js_error list"

text \<open>
  Modelled from the spec: the scanner's start of a document is missing. The state is
  the fresh one of \<^verbatim>\<open>create\<close>, and no handler is suspended.
\<close>

definition initial_config :: config where
  "initial_config =
     \<lparr>c_state = initial_state, c_pending = [], c_trace = [], c_rejected = []\<rparr>"

text \<open>
  Modelled from the spec: the scanner's event dispatch is missing. Delivering an element
  runs the handler up to its \<^verbatim>\<open>await\<close>; settling a fetch resumes the handler that awaits
  it, whose promise is then fulfilled. Settling where no handler is suspended changes
  nothing. The spec does not say what the scanner does when a handler rejects: the
  error is kept and the traversal goes on.
\<close>

fun dispatch :: "url_module \<Rightarrow> RuleContext \<Rightarrow> config \<Rightarrow> step \<Rightarrow> config" where
  "dispatch url context c (ElementLink data) =
     (case manifestExists_start url (c_state c) data of
        (st', tr, p) \<Rightarrow>
          \<lparr>c_state = st',
           c_pending = c_pending c @ (case p of Suspended k \<Rightarrow> [k] | _ \<Rightarrow> []),
           c_trace = c_trace c @ tr,
           c_rejected = c_rejected c @ (case p of Rejected e \<Rightarrow> [e] | _ \<Rightarrow> [])\<rparr>)"
| "dispatch url context c (FetchSettled i) =
     (if i < length (c_pending c) then
        \<lparr>c_state = c_state c,
         c_pending = take i (c_pending c) @ drop (Suc i) (c_pending c),
         c_trace = c_trace c @
           fst (manifestExists_resume (c_pending c ! i)
                  (fetchContent context (s_manifestURL (c_pending c ! i)))),
         c_rejected = c_rejected c\<rparr>
      else c)"

text \<open>
  Modelled from the spec: the scanner's traversal loop is missing. The steps are
  dispatched in order.
\<close>

definition run_steps :: "url_module \<Rightarrow> RuleContext \<Rightarrow> config \<Rightarrow> step list \<Rightarrow> config" where
  "run_steps url context c steps = foldl (dispatch url context) c steps"

text \<open>
  Modelled from the spec: the scanner's traversal of one document is missing. From the
  fresh state of \<^verbatim>\<open>create\<close> it runs the steps, then issues \<^verbatim>\<open>traverse::end\<close>. The result
  is the closure variable at the end, the calls of the element handlers and the calls of
  the end handler. A list of steps that leaves a handler suspended is not a traversal
  of the host (\<open>None\<close>).
\<close>

definition traverse ::
  "url_module \<Rightarrow> RuleContext \<Rightarrow> step list
     \<Rightarrow> (rule_state \<times> effect list \<times> effect list) option" where
  "traverse url context steps =
     (let c = run_steps url context initial_config steps in
      if c_pending c = [] then
        (case manifestWasSpecified (c_state c) of
           (st, tr_end) \<Rightarrow> Some (st, c_trace c, tr_end))
      else None)"

text \<open>
  The elements a list of steps delivers, and the manifest links among them (the test of
  line 39).
\<close>

fun delivered :: "step list \<Rightarrow> ElementFoundEvent list" where
  "delivered [] = []"
| "delivered (ElementLink data # steps) = data # delivered steps"
| "delivered (FetchSettled i # steps) = delivered steps"

definition is_manifest_link :: "ElementFoundEvent \<Rightarrow> bool" where
  "is_manifest_link data = (getAttribute (element data) ''rel'' = Some ''manifest'')"

text \<open>
  Modelled from the spec: the scanner's schedule is missing. This is the one in which
  every handler completes before the next element is delivered.
\<close>

fun sequential :: "ElementFoundEvent list \<Rightarrow> step list" where
  "sequential [] = []"
| "sequential (data # events) = ElementLink data # FetchSettled 0 # sequential events"

section \<open>A standard \<open>url\<close> module\<close>

text \<open>
  Node's \<^verbatim>\<open>url\<close> module is not in the repository. Section 4.1, step 5 of the spec
  describes what the rule takes from it: whether the reference has an explicit scheme,
  and the standard resolution of a reference against a base URL (scheme-relative,
  absolute-path and relative-path references). The definitions of this section are
  that standard: the components of a reference, the removal of dot segments, and the
  resolution and recomposition of RFC 3986, section 5. The theorems about the rule hold
  for every \<open>url_module\<close>; this one serves where a claim names concrete URLs.
\<close>

text \<open>
  Modelled from the spec: \<^verbatim>\<open>url.parse\<close> is missing. The characters of a scheme are
  letters, digits, plus, minus and dot.
\<close>

definition scheme_char :: "char \<Rightarrow> bool" where
  "scheme_char c =
     (c \<in> set ''abcdefghijklmnopqrstuvwxyzABCDEFGHIJKLMNOPQRSTUVWXYZ0123456789+-.'')"

text \<open>
  Modelled from the spec: the object \<^verbatim>\<open>url.parse\<close> returns is missing. A reference has
  five components, of which only the path is always there.
\<close>

record uri_reference =
  u_scheme :: "string option"
  u_authority :: "string option"
  u_path :: string
  u_query :: "string option"
  u_fragment :: "string option"

text \<open>
  Modelled from the spec: \<^verbatim>\<open>url.parse\<close> is missing. A reference has an explicit scheme
  when it starts with scheme characters, at least one, followed by a colon.
\<close>

definition split_scheme :: "string \<Rightarrow> string option \<times> string" where
  "split_scheme s =
     (case dropWhile scheme_char s of
        [] \<Rightarrow> (None, s)
      | c # rest \<Rightarrow>
          if c = CHR '':'' \<and> takeWhile scheme_char s \<noteq> []
          then (Some (takeWhile scheme_char s), rest) else (None, s))"

text \<open>
  Modelled from the spec: \<^verbatim>\<open>url.parse\<close> is missing. After two slashes the authority
  extends to the next slash, question mark or hash.
\<close>

definition split_authority :: "string \<Rightarrow> string option \<times> string" where
  "split_authority s =
     (if take 2 s = ''//'' then
        (Some (takeWhile (\<lambda>c. c \<notin> set ''/?#'') (drop 2 s)),
         dropWhile (\<lambda>c. c \<notin> set ''/?#'') (drop 2 s))
      else (None, s))"

text \<open>
  Modelled from the spec: \<^verbatim>\<open>url.parse\<close> is missing. After a question mark the query
  extends to the next hash.
\<close>

definition split_query :: "string \<Rightarrow> string option \<times> string" where
  "split_query s =
     (case s of
        [] \<Rightarrow> (None, s)
      | c # rest \<Rightarrow>
          if c = CHR ''?''
          then (Some (takeWhile (\<lambda>c. c \<noteq> CHR ''#'') rest),
                dropWhile (\<lambda>c. c \<noteq> CHR ''#'') rest)
          else (None, s))"

text \<open>
  Modelled from the spec: \<^verbatim>\<open>url.parse\<close> is missing. After a hash the fragment is the
  rest.
\<close>

definition split_fragment :: "string \<Rightarrow> string option" where
  "split_fragment s =
     (case s of [] \<Rightarrow> None | c # rest \<Rightarrow> if c = CHR ''#'' then Some rest else None)"

text \<open>
  Modelled from the spec: \<^verbatim>\<open>url.parse\<close> is missing. The components are split off from
  left to right; the path extends to the first question mark or hash.
\<close>

definition parse_reference :: "string \<Rightarrow> uri_reference" where
  "parse_reference s =
     (case split_scheme s of (sch, r1) \<Rightarrow>
      case split_authority r1 of (auth, r2) \<Rightarrow>
      case split_query (dropWhile (\<lambda>c. c \<notin> set ''?#'') r2) of (qry, r3) \<Rightarrow>
        \<lparr>u_scheme = sch, u_authority = auth,
         u_path = takeWhile (\<lambda>c. c \<notin> set ''?#'') r2,
         u_query = qry, u_fragment = split_fragment r3\<rparr>)"

text \<open>
  Modelled from the spec: \<^verbatim>\<open>url.resolve\<close> is missing. The first segment of a path is
  its leading slash, if any, and what follows up to the next slash.
\<close>

definition first_segment :: "string \<Rightarrow> string" where
  "first_segment s =
     (case s of
        [] \<Rightarrow> []
      | c # rest \<Rightarrow>
          if c = CHR ''/'' then c # takeWhile (\<lambda>c. c \<noteq> CHR ''/'') rest
          else takeWhile (\<lambda>c. c \<noteq> CHR ''/'') s)"

text \<open>
  Modelled from the spec: \<^verbatim>\<open>url.resolve\<close> is missing. The last segment is removed
  together with the slash before it.
\<close>

definition remove_last_segment :: "string \<Rightarrow> string" where
  "remove_last_segment out = rev (drop 1 (dropWhile (\<lambda>c. c \<noteq> CHR ''/'') (rev out)))"

text \<open>
  Modelled from the spec: \<^verbatim>\<open>url.resolve\<close> is missing. The segments \<^verbatim>\<open>.\<close> and \<^verbatim>\<open>..\<close> of a
  path are interpreted and removed, from an input buffer to an output buffer.
\<close>

function remove_dot_segments :: "string \<Rightarrow> string \<Rightarrow> string" where
  "remove_dot_segments inp out =
     (if inp = [] then out
      else if take 3 inp = ''../'' then remove_dot_segments (drop 3 inp) out
      else if take 2 inp = ''./'' then remove_dot_segments (drop 2 inp) out
      else if take 3 inp = ''/./'' then remove_dot_segments (drop 2 inp) out
      else if inp = ''/.'' then remove_dot_segments ''/'' out
      else if take 4 inp = ''/../''
        then remove_dot_segments (drop 3 inp) (remove_last_segment out)
      else if inp = ''/..'' then remove_dot_segments ''/'' (remove_last_segment out)
      else if inp = ''.'' \<or> inp = ''..'' then out
      else remove_dot_segments (drop (length (first_segment inp)) inp)
             (out @ first_segment inp))"
  by pat_completeness auto
termination
proof (relation "measure (\<lambda>(inp, out). length inp)", goal_cases)
  case 1
  show ?case by simp
next
  case (8 inp out)
  then show ?case by (cases inp) (auto simp: first_segment_def)
qed auto

declare remove_dot_segments.simps [simp del]

text \<open>
  Modelled from the spec: \<^verbatim>\<open>url.resolve\<close> is missing. A relative path replaces what
  follows the last slash of the base path.
\<close>

definition merge_paths :: "uri_reference \<Rightarrow> string \<Rightarrow> string" where
  "merge_paths base p =
     (if u_authority base \<noteq> None \<and> u_path base = [] then CHR ''/'' # p
      else rev (dropWhile (\<lambda>c. c \<noteq> CHR ''/'') (rev (u_path base))) @ p)"

text \<open>
  Modelled from the spec: \<^verbatim>\<open>url.resolve\<close> is missing. A reference with a scheme stands
  for itself; a scheme-relative one takes the scheme of the base; an empty path keeps
  the path of the base; an absolute path replaces it; a relative path is merged with it.
\<close>

definition resolve_reference :: "uri_reference \<Rightarrow> uri_reference \<Rightarrow> uri_reference" where
  "resolve_reference base r =
     (if u_scheme r \<noteq> None then r\<lparr>u_path := remove_dot_segments (u_path r) []\<rparr>
      else if u_authority r \<noteq> None then
        r\<lparr>u_scheme := u_scheme base, u_path := remove_dot_segments (u_path r) []\<rparr>
      else if u_path r = [] then
        \<lparr>u_scheme = u_scheme base, u_authority = u_authority base, u_path = u_path base,
         u_query = (if u_query r \<noteq> None then u_query r else u_query base),
         u_fragment = u_fragment r\<rparr>
      else if take 1 (u_path r) = ''/'' then
        \<lparr>u_scheme = u_scheme base, u_authority = u_authority base,
         u_path = remove_dot_segments (u_path r) [],
         u_query = u_query r, u_fragment = u_fragment r\<rparr>
      else
        \<lparr>u_scheme = u_scheme base, u_authority = u_authority base,
         u_path = remove_dot_segments (merge_paths base (u_path r)) [],
         u_query = u_query r, u_fragment = u_fragment r\<rparr>)"

text \<open>
  Modelled from the spec: \<^verbatim>\<open>url.resolve\<close> is missing. The components are written back
  with their delimiters.
\<close>

definition recompose :: "uri_reference \<Rightarrow> string" where
  "recompose u =
     (case u_scheme u of None \<Rightarrow> [] | Some s \<Rightarrow> s @ '':'')
     @ (case u_authority u of None \<Rightarrow> [] | Some a \<Rightarrow> ''//'' @ a)
     @ u_path u
     @ (case u_query u of None \<Rightarrow> [] | Some q \<Rightarrow> CHR ''?'' # q)
     @ (case u_fragment u of None \<Rightarrow> [] | Some f \<Rightarrow> CHR ''#'' # f)"

text \<open>
  Modelled from the spec: Node's \<^verbatim>\<open>url\<close> module is missing. The protocol of a reference
  is its scheme with the colon, or \<^verbatim>\<open>null\<close>; resolution parses both URLs, resolves and
  recomposes. The spec names no failure of either, and in this module both return.
\<close>

definition standard_url :: url_module where
  "standard_url =
     \<lparr>parse_protocol =
        (\<lambda>s. Inr (case fst (split_scheme s) of
                    None \<Rightarrow> None
                  | Some p \<Rightarrow> Some (p @ '':''))),
      resolve =
        (\<lambda>from to.
           Inr (recompose
                  (resolve_reference (parse_reference from) (parse_reference to))))\<rparr>"

section \<open>One invocation of the element handler\<close>

lemma reports_append: "reports (xs @ ys) = reports xs @ reports ys"
  by (induction xs rule: reports.induct) simp_all


lemma start_other_rel:
  "getAttribute (element data) ''rel'' \<noteq> Some ''manifest'' \<Longrightarrow>
   manifestExists_start url st data = (st, [GetAttribute (element data) ''rel''], Returned)"
  by (simp add: manifestExists_start_def Let_def)

lemma start_duplicate:
  "getAttribute (element data) ''rel'' = Some ''manifest'' \<Longrightarrow> manifestIsSpecified st \<Longrightarrow>
   manifestExists_start url st data =
     (st,
      [GetAttribute (element data) ''rel'',
       Report (Some (resource data)) (Some (element data))
         ''Web app manifest already specified''],
      Returned)"
  by (simp add: manifestExists_start_def Let_def)

lemma start_invalid_href:
  "getAttribute (element data) ''rel'' = Some ''manifest'' \<Longrightarrow> \<not> manifestIsSpecified st \<Longrightarrow>
   \<not> truthy_string (getAttribute (element data) ''href'') \<Longrightarrow>
   manifestExists_start url st data =
     (st\<lparr>manifestIsSpecified := True\<rparr>,
      [GetAttribute (element data) ''rel'', GetAttribute (element data) ''href'',
       Report (Some (resource data)) (Some (element data)) invalid_href_message],
      Returned)"
  by (cases "getAttribute (element data) ''href''") (simp_all add: manifestExists_start_def Let_def)



lemma start_fetch:
  "getAttribute (element data) ''rel'' = Some ''manifest'' \<Longrightarrow> \<not> manifestIsSpecified st \<Longrightarrow>
   getAttribute (element data) ''href'' = Some href \<Longrightarrow> href \<noteq> [] \<Longrightarrow>
   parse_protocol url href = Inr protocol \<Longrightarrow>
   truthy_string protocol \<or> resolve url (resource data) href = Inr resolved \<Longrightarrow>
   manifestExists_start url st data =
     (st\<lparr>manifestIsSpecified := True\<rparr>,
      [GetAttribute (element data) ''rel'', GetAttribute (element data) ''href'',
       UrlParse href]
      @ (if truthy_string protocol then [] else [UrlResolve (resource data) href])
      @ [FetchContent (if truthy_string protocol then href else resolved)],
      Suspended (AwaitFetch (resource data) (element data)
                   (if truthy_string protocol then href else resolved)))"
  by (auto simp: manifestExists_start_def Let_def)

lemma start_reports_bound:
  "manifestExists_start url st data = (st', tr, p) \<Longrightarrow>
   length (reports tr) \<le> 1 \<and> (p \<noteq> Returned \<longrightarrow> reports tr = [])"
  by (auto simp: manifestExists_start_def Let_def split: if_splits option.splits sum.splits)

lemma resume_reports_bound:
  "length (reports (fst (manifestExists_resume k outcome))) \<le> 1"
  by (auto simp: manifestExists_resume_def fetch_try_block_def split: sum.splits option.splits)

lemma resume_settles: "snd (manifestExists_resume k outcome) = Inr ()"
  by (auto simp: manifestExists_resume_def fetch_try_block_def split: sum.splits option.splits)

lemma resume_failure:
  "manifestExists_resume k (Inl e) =
     ([Debug ''Failed to fetch the web app manifest file'',
       Report (Some (s_resource k)) (Some (s_element k))
         ''Web app manifest file request failed''],
      Inr ())"
  by (simp add: manifestExists_resume_def fetch_try_block_def)

lemma resume_status:
  "manifestExists_resume k (Inr response) =
     (case statusCode response of
        None \<Rightarrow> ([], Inr ())
      | Some code \<Rightarrow>
          if code \<noteq> 0 \<and> code \<noteq> 200 then
            ([Report (Some (s_resource k)) (Some (s_element k))
                (''Web app manifest file could not be fetched (status code: ''
                   @ number_toString code @ '')'')],
             Inr ())
          else ([], Inr ()))"
  by (simp add: manifestExists_resume_def fetch_try_block_def split: option.splits)

lemma manifestExists_returned:
  "manifestExists_start url st data = (st', tr, Returned) \<Longrightarrow>
   manifestExists url context st data = (st', tr, Inr ())"
  by (simp add: manifestExists_def)

lemma manifestExists_rejected:
  "manifestExists_start url st data = (st', tr, Rejected e) \<Longrightarrow>
   manifestExists url context st data = (st', tr, Inl e)"
  by (simp add: manifestExists_def)

lemma manifestExists_suspended:
  "manifestExists_start url st data = (st', tr, Suspended k) \<Longrightarrow>
   manifestExists url context st data =
     (st',
      tr @ fst (manifestExists_resume k (fetchContent context (s_manifestURL k))),
      snd (manifestExists_resume k (fetchContent context (s_manifestURL k))))"
  by (simp add: manifestExists_def split: prod.splits)

lemma manifestExists_fetch:
  assumes "getAttribute (element data) ''rel'' = Some ''manifest''"
    and "\<not> manifestIsSpecified st"
    and "getAttribute (element data) ''href'' = Some href" and "href \<noteq> []"
    and "parse_protocol url href = Inr protocol"
    and "truthy_string protocol \<or> resolve url (resource data) href = Inr resolved"
  shows "manifestExists url context st data =
     (st\<lparr>manifestIsSpecified := True\<rparr>,
      [GetAttribute (element data) ''rel'', GetAttribute (element data) ''href'',
       UrlParse href]
      @ (if truthy_string protocol then [] else [UrlResolve (resource data) href])
      @ [FetchContent (if truthy_string protocol then href else resolved)]
      @ fst (manifestExists_resume
               (AwaitFetch (resource data) (element data)
                  (if truthy_string protocol then href else resolved))
               (fetchContent context (if truthy_string protocol then href else resolved))),
      Inr ())"
  by (simp add: manifestExists_suspended [OF start_fetch [OF assms]] resume_settles)

lemma manifestExists_reports_fetch:
  assumes "getAttribute (element data) ''rel'' = Some ''manifest''"
    and "\<not> manifestIsSpecified st"
    and "getAttribute (element data) ''href'' = Some href" and "href \<noteq> []"
    and "parse_protocol url href = Inr protocol"
    and "truthy_string protocol \<or> resolve url (resource data) href = Inr resolved"
  shows "reports (fst (snd (manifestExists url context st data))) =
     reports (fst (manifestExists_resume
               (AwaitFetch (resource data) (element data)
                  (if truthy_string protocol then href else resolved))
               (fetchContent context (if truthy_string protocol then href else resolved))))"
  by (simp add: manifestExists_fetch [OF assms] reports_append)

text \<open>
  Claim C4. An element with \<^verbatim>\<open>rel="manifest"\<close> that arrives when \<^verbatim>\<open>manifestIsSpecified\<close>
  is already true is reported once, as \<^verbatim>\<open>Web app manifest already specified\<close>, with its
  resource and element. The handler then returns: it has read \<^verbatim>\<open>rel\<close> and nothing
  else, so \<^verbatim>\<open>href\<close> is never read and nothing is fetched, and the variable stays true.
\<close>

theorem duplicate_manifest_reported:
  assumes "getAttribute (element data) ''rel'' = Some ''manifest''"
    and "manifestIsSpecified st"
  shows "manifestExists url context st data =
     (st,
      [GetAttribute (element data) ''rel'',
       Report (Some (resource data)) (Some (element data))
         ''Web app manifest already specified''],
      Inr ())"
  using assms by (simp add: manifestExists_def start_duplicate)

theorem duplicate_manifest_reported_witness:
  "manifestExists standard_url \<lparr>fetchContent = (\<lambda>u. Inl (JsError ''unreachable''))\<rparr>
     \<lparr>manifestIsSpecified = True\<rparr>
     \<lparr>element = Element 2 [(''rel'', ''manifest''), (''href'', ''second.json'')],
      resource = ''https://example.com/''\<rparr> =
     (\<lparr>manifestIsSpecified = True\<rparr>,
      [GetAttribute (Element 2 [(''rel'', ''manifest''), (''href'', ''second.json'')]) ''rel'',
       Report (Some ''https://example.com/'')
         (Some (Element 2 [(''rel'', ''manifest''), (''href'', ''second.json'')]))
         ''Web app manifest already specified''],
      Inr ())"
  using duplicate_manifest_reported [of
      "\<lparr>element = Element 2 [(''rel'', ''manifest''), (''href'', ''second.json'')],
        resource = ''https://example.com/''\<rparr>"
      "\<lparr>manifestIsSpecified = True\<rparr>" standard_url
      "\<lparr>fetchContent = (\<lambda>u. Inl (JsError ''unreachable''))\<rparr>"]
  by (simp add: getAttribute_def)

lemma status_code_reported:
  assumes "getAttribute (element data) ''rel'' = Some ''manifest''"
    and "\<not> manifestIsSpecified st"
    and "getAttribute (element data) ''href'' = Some href" and "href \<noteq> []"
    and "parse_protocol url href = Inr protocol"
    and "truthy_string protocol \<or> resolve url (resource data) href = Inr resolved"
    and "fetchContent context (if truthy_string protocol then href else resolved) =
           Inr response"
    and "statusCode response = Some code" and "code \<noteq> 0" and "code \<noteq> 200"
  shows "reports (fst (snd (manifestExists url context st data))) =
     [(Some (resource data), Some (element data),
       ''Web app manifest file could not be fetched (status code: ''
         @ number_toString code @ '')'')]"
  using assms(7-10)
  by (simp add: manifestExists_reports_fetch [OF assms(1-6)] resume_status)

lemma status_code_accepted:
  assumes "getAttribute (element data) ''rel'' = Some ''manifest''"
    and "\<not> manifestIsSpecified st"
    and "getAttribute (element data) ''href'' = Some href" and "href \<noteq> []"
    and "parse_protocol url href = Inr protocol"
    and "truthy_string protocol \<or> resolve url (resource data) href = Inr resolved"
    and "fetchContent context (if truthy_string protocol then href else resolved) =
           Inr response"
    and "statusCode response = None \<or> statusCode response = Some 200"
  shows "reports (fst (snd (manifestExists url context st data))) = []"
  using assms(7-8)
  by (auto simp: manifestExists_reports_fetch [OF assms(1-6)] resume_status)

lemma number_toString_404: "number_toString 404 = ''404''"
  by code_simp

text \<open>
  Beyond two to the 53 the conversion is no longer the decimal numeral of the integer.
\<close>

lemma number_toString_large:
  "number_toString (10 ^ 21) = ''1e+21''"
  "number_toString (2 ^ 64) = ''18446744073709552000''"
  by code_simp+

text \<open>
  Claim C1. A fetch that succeeds with a status code that is not \<^verbatim>\<open>null\<close> and not 200
  is to be reported, with the code in the message. The two lemmas above show it for
  every code other than 0, and show that \<^verbatim>\<open>null\<close> and 200 are accepted. The test of
  line 87 is by truthiness, though, and the number 0 is falsy: a fetch that succeeds
  with status code 0 is not reported.
\<close>

theorem status_code_zero_unreported:
  "reports (fst (snd (manifestExists url
      \<lparr>fetchContent = (\<lambda>u. Inr \<lparr>statusCode = Some 0\<rparr>)\<rparr> initial_state
      \<lparr>element = Element 1 [(''rel'', ''manifest''), (''href'', ''manifest.json'')],
       resource = ''https://example.com/index.html''\<rparr>))) = []"
  by (auto simp: manifestExists_def manifestExists_start_def manifestExists_resume_def
      fetch_try_block_def getAttribute_def initial_state_def Let_def reports_append
      split: sum.splits)

text \<open>
  With a \<^verbatim>\<open>url\<close> module that returns, the manifest is fetched, the fetch succeeds with
  status code 0, and that is all.
\<close>

lemma status_code_zero_fetched:
  "manifestExists standard_url
      \<lparr>fetchContent = (\<lambda>u. Inr \<lparr>statusCode = Some 0\<rparr>)\<rparr> initial_state
      \<lparr>element = Element 1 [(''rel'', ''manifest''), (''href'', ''manifest.json'')],
       resource = ''https://example.com/index.html''\<rparr> =
     (\<lparr>manifestIsSpecified = True\<rparr>,
      [GetAttribute (Element 1 [(''rel'', ''manifest''), (''href'', ''manifest.json'')]) ''rel'',
       GetAttribute (Element 1 [(''rel'', ''manifest''), (''href'', ''manifest.json'')]) ''href'',
       UrlParse ''manifest.json'',
       UrlResolve ''https://example.com/index.html'' ''manifest.json'',
       FetchContent ''https://example.com/manifest.json''],
      Inr ())"
  by code_simp

text \<open>
  Claim C6. A first manifest link whose \<^verbatim>\<open>href\<close> is absent or empty is reported once, as
  \<^verbatim>\<open>Web app manifest specified with invalid 'href'\<close>, with its resource and element. The
  handler then returns: its calls are the two attribute reads and the report, so no URL
  is parsed or resolved and nothing is fetched. The message is written out: its last
  character, the closing quote, has code 39.
\<close>

theorem invalid_href_reported:
  assumes "getAttribute (element data) ''rel'' = Some ''manifest''"
    and "\<not> manifestIsSpecified st"
    and "getAttribute (element data) ''href'' = None
         \<or> getAttribute (element data) ''href'' = Some []"
  shows "manifestExists url context st data =
     (st\<lparr>manifestIsSpecified := True\<rparr>,
      [GetAttribute (element data) ''rel'', GetAttribute (element data) ''href'',
       Report (Some (resource data)) (Some (element data))
         (''Web app manifest specified with invalid 'href'' @ [CHR 0x27])],
      Inr ())"
proof -
  have "\<not> truthy_string (getAttribute (element data) ''href'')"
    using assms(3) by auto
  with assms(1,2) show ?thesis
    by (simp add: manifestExists_def start_invalid_href invalid_href_message_def)
qed

theorem invalid_href_reported_witness:
  "manifestExists standard_url \<lparr>fetchContent = (\<lambda>u. Inr \<lparr>statusCode = Some 200\<rparr>)\<rparr>
     initial_state
     \<lparr>element = Element 1 [(''rel'', ''manifest'')], resource = ''https://example.com/''\<rparr> =
     (\<lparr>manifestIsSpecified = True\<rparr>,
      [GetAttribute (Element 1 [(''rel'', ''manifest'')]) ''rel'',
       GetAttribute (Element 1 [(''rel'', ''manifest'')]) ''href'',
       Report (Some ''https://example.com/'') (Some (Element 1 [(''rel'', ''manifest'')]))
         (''Web app manifest specified with invalid 'href'' @ [CHR 0x27])],
      Inr ())
   \<and> manifestExists standard_url \<lparr>fetchContent = (\<lambda>u. Inr \<lparr>statusCode = Some 200\<rparr>)\<rparr>
     initial_state
     \<lparr>element = Element 1 [(''rel'', ''manifest''), (''href'', '''')],
      resource = ''https://example.com/''\<rparr> =
     (\<lparr>manifestIsSpecified = True\<rparr>,
      [GetAttribute (Element 1 [(''rel'', ''manifest''), (''href'', '''')]) ''rel'',
       GetAttribute (Element 1 [(''rel'', ''manifest''), (''href'', '''')]) ''href'',
       Report (Some ''https://example.com/'')
         (Some (Element 1 [(''rel'', ''manifest''), (''href'', '''')]))
         (''Web app manifest specified with invalid 'href'' @ [CHR 0x27])],
      Inr ())"
  using invalid_href_reported [of
      "\<lparr>element = Element 1 [(''rel'', ''manifest'')], resource = ''https://example.com/''\<rparr>"
      initial_state standard_url "\<lparr>fetchContent = (\<lambda>u. Inr \<lparr>statusCode = Some 200\<rparr>)\<rparr>"]
    invalid_href_reported [of
      "\<lparr>element = Element 1 [(''rel'', ''manifest''), (''href'', '''')],
        resource = ''https://example.com/''\<rparr>"
      initial_state standard_url "\<lparr>fetchContent = (\<lambda>u. Inr \<lparr>statusCode = Some 200\<rparr>)\<rparr>"]
  by (simp add: getAttribute_def initial_state_def)

text \<open>
  Claim C10. One invocation of the element handler reports at most once, whatever the
  event, the state, the \<^verbatim>\<open>url\<close> module and the outcome of the fetch. An element whose
  \<^verbatim>\<open>rel\<close> is not exactly \<^verbatim>\<open>manifest\<close> is not reported and leaves the state as it was.
\<close>

theorem at_most_one_report:
  "length (reports (fst (snd (manifestExists url context st data)))) \<le> 1
   \<and> (getAttribute (element data) ''rel'' \<noteq> Some ''manifest'' \<longrightarrow>
        reports (fst (snd (manifestExists url context st data))) = []
        \<and> fst (manifestExists url context st data) = st)"
proof
  obtain st' tr p where start: "manifestExists_start url st data = (st', tr, p)"
    by (cases "manifestExists_start url st data")
  show "length (reports (fst (snd (manifestExists url context st data)))) \<le> 1"
  proof (cases p)
    case Returned
    with start start_reports_bound [OF start] show ?thesis
      by (simp add: manifestExists_returned)
  next
    case (Rejected e)
    with start start_reports_bound [OF start] show ?thesis
      by (simp add: manifestExists_rejected)
  next
    case (Suspended k)
    with start start_reports_bound [OF start]
      resume_reports_bound [of k "fetchContent context (s_manifestURL k)"]
    show ?thesis
      by (simp add: manifestExists_suspended reports_append)
  qed
next
  show "getAttribute (element data) ''rel'' \<noteq> Some ''manifest'' \<longrightarrow>
        reports (fst (snd (manifestExists url context st data))) = []
        \<and> fst (manifestExists url context st data) = st"
    by (simp add: manifestExists_def start_other_rel)
qed

theorem at_most_one_report_witness:
  "getAttribute (Element 3 [(''rel'', ''Manifest''), (''href'', ''m.json'')]) ''rel''
     \<noteq> Some ''manifest''
   \<and> reports (fst (snd (manifestExists standard_url
        \<lparr>fetchContent = (\<lambda>u. Inr \<lparr>statusCode = Some 404\<rparr>)\<rparr> initial_state
        \<lparr>element = Element 3 [(''rel'', ''Manifest''), (''href'', ''m.json'')],
         resource = ''https://example.com/''\<rparr>))) = []
   \<and> fst (manifestExists standard_url
        \<lparr>fetchContent = (\<lambda>u. Inr \<lparr>statusCode = Some 404\<rparr>)\<rparr> initial_state
        \<lparr>element = Element 3 [(''rel'', ''Manifest''), (''href'', ''m.json'')],
         resource = ''https://example.com/''\<rparr>) = initial_state"
  using at_most_one_report [of standard_url
      "\<lparr>fetchContent = (\<lambda>u. Inr \<lparr>statusCode = Some 404\<rparr>)\<rparr>" initial_state
      "\<lparr>element = Element 3 [(''rel'', ''Manifest''), (''href'', ''m.json'')],
        resource = ''https://example.com/''\<rparr>"]
  by (simp add: getAttribute_def)






section \<open>Traversals\<close>

lemma run_steps_Nil: "run_steps url context c [] = c"
  by (simp add: run_steps_def)

lemma run_steps_Cons:
  "run_steps url context c (s # steps) = run_steps url context (dispatch url context c s) steps"
  by (simp add: run_steps_def)

lemma run_steps_append:
  "run_steps url context c (xs @ ys) = run_steps url context (run_steps url context c xs) ys"
  by (simp add: run_steps_def)

lemma start_state:
  "manifestIsSpecified (fst (manifestExists_start url st data)) =
     (manifestIsSpecified st \<or> is_manifest_link data)"
  by (auto simp: manifestExists_start_def is_manifest_link_def Let_def
      split: option.splits sum.splits)

lemma dispatch_ElementLink:
  "dispatch url context c (ElementLink data) =
     \<lparr>c_state = fst (manifestExists_start url (c_state c) data),
      c_pending = c_pending c @
        (case snd (snd (manifestExists_start url (c_state c) data)) of
           Suspended k \<Rightarrow> [k] | _ \<Rightarrow> []),
      c_trace = c_trace c @ fst (snd (manifestExists_start url (c_state c) data)),
      c_rejected = c_rejected c @
        (case snd (snd (manifestExists_start url (c_state c) data)) of
           Rejected e \<Rightarrow> [e] | _ \<Rightarrow> [])\<rparr>"
  by (simp split: prod.splits)

lemma dispatch_state:
  "manifestIsSpecified (c_state (dispatch url context c s)) =
     (manifestIsSpecified (c_state c)
      \<or> (case s of ElementLink data \<Rightarrow> is_manifest_link data | FetchSettled i \<Rightarrow> False))"
proof (cases s)
  case (ElementLink data)
  then show ?thesis
    by (simp add: dispatch_ElementLink start_state del: dispatch.simps)
next
  case (FetchSettled i)
  then show ?thesis by simp
qed

lemma run_steps_state:
  "manifestIsSpecified (c_state (run_steps url context c steps)) =
     (manifestIsSpecified (c_state c) \<or> (\<exists>data \<in> set (delivered steps). is_manifest_link data))"
proof (induction steps arbitrary: c)
  case Nil
  then show ?case by (simp add: run_steps_Nil)
next
  case (Cons s steps)
  show ?case
    by (cases s) (auto simp: run_steps_Cons Cons.IH dispatch_state simp del: dispatch.simps)
qed

lemma traverse_Some:
  "traverse url context steps = Some (st, tr, tr_end) \<Longrightarrow>
   c_pending (run_steps url context initial_config steps) = []
   \<and> st = c_state (run_steps url context initial_config steps)
   \<and> tr = c_trace (run_steps url context initial_config steps)
   \<and> tr_end = (if manifestIsSpecified st then []
               else [Report None None ''Web app manifest not specified''])"
  by (auto simp: traverse_def manifestWasSpecified_def Let_def split: if_splits)

lemma sequential_pending:
  "c_pending c = [] \<Longrightarrow> c_pending (run_steps url context c (sequential events)) = []"
proof (induction events arbitrary: c)
  case Nil
  then show ?case by (simp add: run_steps_Nil)
next
  case (Cons data events)
  have "c_pending (dispatch url context (dispatch url context c (ElementLink data))
                     (FetchSettled 0)) = []"
    using Cons.prems by (simp split: prod.splits progress.splits)
  then show ?case
    by (simp add: run_steps_Cons Cons.IH del: dispatch.simps)
qed

lemma delivered_sequential: "delivered (sequential events) = events"
  by (induction events) simp_all

lemma traverse_sequential:
  "\<exists>st tr tr_end. traverse url context (sequential events) = Some (st, tr, tr_end)"
  by (simp add: traverse_def Let_def sequential_pending initial_config_def split: prod.splits)

text \<open>
  Claim C3. At the end of a traversal in which no element with \<^verbatim>\<open>rel\<close> equal to
  \<^verbatim>\<open>manifest\<close> was delivered, the end handler reports once: \<^verbatim>\<open>null\<close> resource, \<^verbatim>\<open>null\<close>
  element, message \<^verbatim>\<open>Web app manifest not specified\<close>. If a manifest link was delivered,
  valid or not, the end handler reports nothing. This holds in whatever order the
  fetches settle.
\<close>

theorem missing_manifest_reported:
  assumes "traverse url context steps = Some (st, tr, tr_end)"
  shows "tr_end =
     (if \<exists>data \<in> set (delivered steps). getAttribute (element data) ''rel'' = Some ''manifest''
      then [] else [Report None None ''Web app manifest not specified''])"
  using traverse_Some [OF assms] run_steps_state [of url "context" initial_config steps]
  by (simp add: initial_config_def initial_state_def is_manifest_link_def)


theorem missing_manifest_reported_witness:
  "(\<exists>st tr. traverse standard_url \<lparr>fetchContent = (\<lambda>u. Inr \<lparr>statusCode = Some 200\<rparr>)\<rparr>
       (sequential
          [\<lparr>element = Element 1 [(''rel'', ''stylesheet''), (''href'', ''site.css'')],
            resource = ''https://example.com/''\<rparr>]) =
     Some (st, tr, [Report None None ''Web app manifest not specified'']))
   \<and> (\<exists>st tr. traverse standard_url \<lparr>fetchContent = (\<lambda>u. Inr \<lparr>statusCode = Some 200\<rparr>)\<rparr>
       (sequential
          [\<lparr>element = Element 1 [(''rel'', ''stylesheet''), (''href'', ''site.css'')],
            resource = ''https://example.com/''\<rparr>,
           \<lparr>element = Element 2 [(''rel'', ''manifest'')],
            resource = ''https://example.com/''\<rparr>]) =
     Some (st, tr, []))"
proof -
  let ?ctx = "\<lparr>fetchContent = (\<lambda>u. Inr \<lparr>statusCode = Some 200\<rparr>)\<rparr>"
  let ?css = "\<lparr>element = Element 1 [(''rel'', ''stylesheet''), (''href'', ''site.css'')],
               resource = ''https://example.com/''\<rparr>"
  let ?manifest = "\<lparr>element = Element 2 [(''rel'', ''manifest'')],
                    resource = ''https://example.com/''\<rparr>"
  obtain st1 tr1 end1
    where run1: "traverse standard_url ?ctx (sequential [?css]) = Some (st1, tr1, end1)"
    using traverse_sequential [of standard_url ?ctx "[?css]"] by blast
  obtain st2 tr2 end2
    where run2: "traverse standard_url ?ctx (sequential [?css, ?manifest]) =
                   Some (st2, tr2, end2)"
    using traverse_sequential [of standard_url ?ctx "[?css, ?manifest]"] by blast
  have "end1 = [Report None None ''Web app manifest not specified'']"
    using missing_manifest_reported [OF run1] by (simp add: getAttribute_def)
  moreover have "end2 = []"
    using missing_manifest_reported [OF run2] by (simp add: getAttribute_def)
  ultimately show ?thesis using run1 run2 by simp
qed

lemma dispatch_other_rel:
  "\<not> is_manifest_link data \<Longrightarrow>
   dispatch url context c (ElementLink data) =
     c\<lparr>c_trace := c_trace c @ [GetAttribute (element data) ''rel'']\<rparr>"
  by (simp add: is_manifest_link_def start_other_rel)

lemma steps_without_manifest_idle:
  assumes "\<forall>data \<in> set (delivered steps). \<not> is_manifest_link data"
    and "c_pending c = []"
  shows "c_pending (run_steps url context c steps) = []
         \<and> c_state (run_steps url context c steps) = c_state c
         \<and> reports (c_trace (run_steps url context c steps)) = reports (c_trace c)"
  using assms
proof (induction steps arbitrary: c)
  case Nil
  then show ?case by (simp add: run_steps_Nil)
next
  case (Cons s steps)
  show ?case
  proof (cases s)
    case (ElementLink data)
    with Cons.prems have other: "\<not> is_manifest_link data" by simp
    from Cons.prems ElementLink
    have rest: "\<forall>data \<in> set (delivered steps). \<not> is_manifest_link data" by simp
    show ?thesis
      using Cons.IH [OF rest, of "dispatch url context c s"] Cons.prems(2)
      by (simp add: ElementLink run_steps_Cons dispatch_other_rel [OF other] reports_append
          del: dispatch.simps)
  next
    case (FetchSettled i)
    with Cons.prems
    have rest: "\<forall>data \<in> set (delivered steps). \<not> is_manifest_link data" by simp
    have same: "dispatch url context c s = c"
      using Cons.prems(2) FetchSettled by simp
    show ?thesis
      using Cons.IH [OF rest, of c] Cons.prems(2)
      by (simp add: run_steps_Cons same del: dispatch.simps)
  qed
qed

lemma steps_without_manifest_pending:
  assumes "\<forall>data \<in> set (delivered steps). \<not> is_manifest_link data"
    and "c_pending c = [k]"
  shows "c_state (run_steps url context c steps) = c_state c
         \<and> (c_pending (run_steps url context c steps) = [k]
              \<and> reports (c_trace (run_steps url context c steps)) = reports (c_trace c)
            \<or> c_pending (run_steps url context c steps) = []
              \<and> reports (c_trace (run_steps url context c steps)) =
                  reports (c_trace c)
                  @ reports (fst (manifestExists_resume k
                                   (fetchContent context (s_manifestURL k)))))"
  using assms
proof (induction steps arbitrary: c)
  case Nil
  then show ?case by (simp add: run_steps_Nil)
next
  case (Cons s steps)
  show ?case
  proof (cases s)
    case (ElementLink data)
    with Cons.prems have other: "\<not> is_manifest_link data" by simp
    from Cons.prems ElementLink
    have rest: "\<forall>data \<in> set (delivered steps). \<not> is_manifest_link data" by simp
    show ?thesis
      using Cons.IH [OF rest, of "dispatch url context c s"] Cons.prems(2)
      by (simp add: ElementLink run_steps_Cons dispatch_other_rel [OF other] reports_append
          del: dispatch.simps)
  next
    case (FetchSettled i)
    with Cons.prems
    have rest: "\<forall>data \<in> set (delivered steps). \<not> is_manifest_link data" by simp
    show ?thesis
    proof (cases "i = 0")
      case True
      let ?c' = "dispatch url context c s"
      have settled: "c_pending ?c' = []" "c_state ?c' = c_state c"
        "c_trace ?c' = c_trace c
           @ fst (manifestExists_resume k (fetchContent context (s_manifestURL k)))"
        using Cons.prems(2) FetchSettled True by simp_all
      show ?thesis
        using steps_without_manifest_idle [OF rest settled(1), of url "context"] settled
        by (simp add: run_steps_Cons reports_append del: dispatch.simps)
    next
      case False
      have same: "dispatch url context c s = c"
        using Cons.prems(2) FetchSettled False by simp
      show ?thesis
        using Cons.IH [OF rest, of c] Cons.prems(2)
        by (simp add: run_steps_Cons same del: dispatch.simps)
    qed
  qed
qed

lemma single_manifest_split:
  "filter is_manifest_link (delivered steps) = [data] \<Longrightarrow>
   \<exists>before after. steps = before @ ElementLink data # after
     \<and> (\<forall>d \<in> set (delivered before). \<not> is_manifest_link d)
     \<and> (\<forall>d \<in> set (delivered after). \<not> is_manifest_link d)"
proof (induction steps)
  case Nil
  then show ?case by simp
next
  case (Cons s steps)
  show ?case
  proof (cases s)
    case (FetchSettled i)
    with Cons.prems have "filter is_manifest_link (delivered steps) = [data]" by simp
    from Cons.IH [OF this] obtain before after
      where "steps = before @ ElementLink data # after"
        "\<forall>d \<in> set (delivered before). \<not> is_manifest_link d"
        "\<forall>d \<in> set (delivered after). \<not> is_manifest_link d" by blast
    then have "s # steps = (s # before) @ ElementLink data # after
        \<and> (\<forall>d \<in> set (delivered (s # before)). \<not> is_manifest_link d)
        \<and> (\<forall>d \<in> set (delivered after). \<not> is_manifest_link d)"
      using FetchSettled by simp
    then show ?thesis by blast
  next
    case (ElementLink d')
    show ?thesis
    proof (cases "is_manifest_link d'")
      case True
      with Cons.prems ElementLink
      have "d' = data" "filter is_manifest_link (delivered steps) = []" by simp_all
      then have "s # steps = [] @ ElementLink data # steps
          \<and> (\<forall>d \<in> set (delivered []). \<not> is_manifest_link d)
          \<and> (\<forall>d \<in> set (delivered steps). \<not> is_manifest_link d)"
        using ElementLink by (simp add: filter_empty_conv)
      then show ?thesis by blast
    next
      case False
      with Cons.prems ElementLink
      have "filter is_manifest_link (delivered steps) = [data]" by simp
      from Cons.IH [OF this] obtain before after
        where "steps = before @ ElementLink data # after"
          "\<forall>d \<in> set (delivered before). \<not> is_manifest_link d"
          "\<forall>d \<in> set (delivered after). \<not> is_manifest_link d" by blast
      then have "s # steps = (s # before) @ ElementLink data # after
          \<and> (\<forall>d \<in> set (delivered (s # before)). \<not> is_manifest_link d)
          \<and> (\<forall>d \<in> set (delivered after). \<not> is_manifest_link d)"
        using ElementLink False by simp
      then show ?thesis by blast
    qed
  qed
qed

lemma single_manifest_traversal:
  assumes single: "filter is_manifest_link (delivered steps) = [data]"
    and run: "traverse url context steps = Some (st, tr, tr_end)"
  shows "tr_end = [] \<and> manifestIsSpecified st
         \<and> reports tr = reports (fst (snd (manifestExists url context initial_state data)))"
proof -
  from single_manifest_split [OF single] obtain before after
    where steps: "steps = before @ ElementLink data # after"
      and before: "\<forall>d \<in> set (delivered before). \<not> is_manifest_link d"
      and after: "\<forall>d \<in> set (delivered after). \<not> is_manifest_link d"
    by blast
  have "data \<in> set (filter is_manifest_link (delivered steps))"
    using single by simp
  then have link: "is_manifest_link data" by simp
  let ?c1 = "run_steps url context initial_config before"
  let ?c2 = "dispatch url context ?c1 (ElementLink data)"
  let ?c3 = "run_steps url context ?c2 after"
  have c1: "c_pending ?c1 = []" "c_state ?c1 = initial_state" "reports (c_trace ?c1) = []"
    using steps_without_manifest_idle [OF before, of initial_config url "context"]
    by (simp_all add: initial_config_def)
  obtain st' tr0 p where start: "manifestExists_start url initial_state data = (st', tr0, p)"
    by (cases "manifestExists_start url initial_state data")
  have st': "manifestIsSpecified st'"
    using start_state [of url initial_state data] start link by simp
  have c2: "c_state ?c2 = st'" "reports (c_trace ?c2) = reports tr0"
    "c_pending ?c2 = (case p of Suspended k \<Rightarrow> [k] | _ \<Rightarrow> [])"
    using c1 start by (simp_all add: dispatch_ElementLink reports_append del: dispatch.simps)
  have whole: "run_steps url context initial_config steps = ?c3"
    by (simp add: steps run_steps_append run_steps_Cons del: dispatch.simps)
  note final = traverse_Some [OF run, unfolded whole]
  have elems: "reports (c_trace ?c3) =
                 reports (fst (snd (manifestExists url context initial_state data)))
               \<and> c_state ?c3 = st'"
  proof (cases p)
    case Returned
    with c2 have "c_pending ?c2 = []" by simp
    from steps_without_manifest_idle [OF after this, of url "context"] c2 start Returned
    show ?thesis by (simp add: manifestExists_returned)
  next
    case (Rejected e)
    with c2 have "c_pending ?c2 = []" by simp
    from steps_without_manifest_idle [OF after this, of url "context"] c2 start Rejected
    show ?thesis by (simp add: manifestExists_rejected)
  next
    case (Suspended k)
    with c2 have "c_pending ?c2 = [k]" by simp
    from steps_without_manifest_pending [OF after this, of url "context"] final c2 start
      Suspended
    show ?thesis by (simp add: manifestExists_suspended reports_append)
  qed
  with final st' show ?thesis by simp
qed

text \<open>
  Claim C2. In a traversal that delivers exactly one manifest link, with a non-empty
  \<^verbatim>\<open>href\<close> and a fetch of the manifest URL that succeeds with status code 200, nothing is
  reported, neither by the element handler nor by the end handler. That the manifest
  URL is fetched says that \<^verbatim>\<open>url.parse\<close> returned and, where it found no protocol, that
  \<^verbatim>\<open>url.resolve\<close> returned.
\<close>

theorem single_valid_manifest_no_findings:
  assumes "filter is_manifest_link (delivered steps) = [data]"
    and "getAttribute (element data) ''href'' = Some href" and "href \<noteq> []"
    and "parse_protocol url href = Inr protocol"
    and "truthy_string protocol \<or> resolve url (resource data) href = Inr resolved"
    and "fetchContent context (if truthy_string protocol then href else resolved) =
           Inr response"
    and "statusCode response = Some 200"
    and "traverse url context steps = Some (st, tr, tr_end)"
  shows "reports (tr @ tr_end) = []"
proof -
  have "data \<in> set (filter is_manifest_link (delivered steps))"
    using assms(1) by simp
  then have link: "getAttribute (element data) ''rel'' = Some ''manifest''"
    by (simp add: is_manifest_link_def)
  have fresh: "\<not> manifestIsSpecified initial_state"
    by (simp add: initial_state_def)
  have accepted: "statusCode response = None \<or> statusCode response = Some 200"
    using assms(7) by simp
  have "reports (fst (snd (manifestExists url context initial_state data))) = []"
    by (rule status_code_accepted [OF link fresh assms(2-6) accepted])
  with single_manifest_traversal [OF assms(1) assms(8)] show ?thesis by simp
qed


theorem single_valid_manifest_no_findings_witness:
  "\<exists>st tr tr_end.
     traverse standard_url \<lparr>fetchContent = (\<lambda>u. Inr \<lparr>statusCode = Some 200\<rparr>)\<rparr>
       [ElementLink \<lparr>element = Element 1 [(''rel'', ''stylesheet''), (''href'', ''site.css'')],
                     resource = ''https://example.com/index.html''\<rparr>,
        ElementLink \<lparr>element = Element 2 [(''rel'', ''manifest''), (''href'', ''manifest.json'')],
                     resource = ''https://example.com/index.html''\<rparr>,
        ElementLink \<lparr>element = Element 3 [(''rel'', ''icon''), (''href'', ''icon.png'')],
                     resource = ''https://example.com/index.html''\<rparr>,
        FetchSettled 0] = Some (st, tr, tr_end)
     \<and> reports (tr @ tr_end) = []"
proof -
  let ?ctx = "\<lparr>fetchContent = (\<lambda>u. Inr \<lparr>statusCode = Some 200\<rparr>)\<rparr>"
  let ?manifest = "\<lparr>element = Element 2 [(''rel'', ''manifest''), (''href'', ''manifest.json'')],
                    resource = ''https://example.com/index.html''\<rparr>"
  let ?steps =
    "[ElementLink \<lparr>element = Element 1 [(''rel'', ''stylesheet''), (''href'', ''site.css'')],
                   resource = ''https://example.com/index.html''\<rparr>,
      ElementLink ?manifest,
      ElementLink \<lparr>element = Element 3 [(''rel'', ''icon''), (''href'', ''icon.png'')],
                   resource = ''https://example.com/index.html''\<rparr>,
      FetchSettled 0]"
  have "traverse standard_url ?ctx ?steps \<noteq> None"
    by code_simp
  then obtain st tr tr_end
    where run: "traverse standard_url ?ctx ?steps = Some (st, tr, tr_end)"
    by auto
  have single: "filter is_manifest_link (delivered ?steps) = [?manifest]"
    by (simp add: is_manifest_link_def getAttribute_def)
  have relative: "parse_protocol standard_url ''manifest.json'' = Inr None"
    by code_simp
  have resolved: "resolve standard_url ''https://example.com/index.html'' ''manifest.json'' =
                    Inr ''https://example.com/manifest.json''"
    by code_simp
  have "reports (tr @ tr_end) = []"
    by (rule single_valid_manifest_no_findings
        [OF single _ _ relative _ _ _ run,
           where resolved = "''https://example.com/manifest.json''"
             and response = "\<lparr>statusCode = Some 200\<rparr>"])
      (simp_all add: getAttribute_def resolved)
  with run show ?thesis by blast
qed

text \<open>
  Claim C5. An element with \<^verbatim>\<open>rel="manifest"\<close> leaves \<^verbatim>\<open>manifestIsSpecified\<close> true when
  the handler reaches its \<^verbatim>\<open>await\<close> or returns, whatever its \<^verbatim>\<open>href\<close> is. So a traversal
  whose only manifest link has an absent or empty \<^verbatim>\<open>href\<close> reports the invalid \<^verbatim>\<open>href\<close>
  and nothing else: the end handler stays silent. The message is written out: its last
  character, the closing quote, has code 39.
\<close>

theorem malformed_manifest_still_specified:
  assumes "filter is_manifest_link (delivered steps) = [data]"
    and "getAttribute (element data) ''href'' = None
         \<or> getAttribute (element data) ''href'' = Some []"
    and "traverse url context steps = Some (st, tr, tr_end)"
  shows "(getAttribute (element link) ''rel'' = Some ''manifest'' \<longrightarrow>
            manifestIsSpecified (fst (manifestExists_start url st0 link)))
         \<and> tr_end = [] \<and> manifestIsSpecified st
         \<and> reports (tr @ tr_end) =
             [(Some (resource data), Some (element data),
               (''Web app manifest specified with invalid 'href'' @ [CHR 0x27]))]"
proof -
  have "data \<in> set (filter is_manifest_link (delivered steps))"
    using assms(1) by simp
  then have "is_manifest_link data" by simp
  then have rel: "getAttribute (element data) ''rel'' = Some ''manifest''"
    by (simp add: is_manifest_link_def)
  have fresh: "\<not> manifestIsSpecified initial_state"
    by (simp add: initial_state_def)
  have falsy: "\<not> truthy_string (getAttribute (element data) ''href'')"
    using assms(2) by auto
  have "reports (fst (snd (manifestExists url context initial_state data))) =
          [(Some (resource data), Some (element data),
               (''Web app manifest specified with invalid 'href'' @ [CHR 0x27]))]"
    by (simp add: manifestExists_returned [OF start_invalid_href [OF rel fresh falsy]]
        invalid_href_message_def)
  with single_manifest_traversal [OF assms(1) assms(3)] show ?thesis
    by (simp add: start_state is_manifest_link_def)
qed


theorem malformed_manifest_still_specified_witness:
  "manifestIsSpecified (fst (manifestExists_start standard_url initial_state
     \<lparr>element = Element 3 [(''rel'', ''manifest''), (''href'', ''manifest.json'')],
      resource = ''https://example.com/index.html''\<rparr>))
   \<and> (\<exists>st tr tr_end.
     traverse standard_url \<lparr>fetchContent = (\<lambda>u. Inr \<lparr>statusCode = Some 200\<rparr>)\<rparr>
       [ElementLink \<lparr>element = Element 1 [(''rel'', ''manifest''), (''href'', '''')],
                     resource = ''https://example.com/index.html''\<rparr>,
        ElementLink \<lparr>element = Element 2 [(''rel'', ''stylesheet''), (''href'', ''site.css'')],
                     resource = ''https://example.com/index.html''\<rparr>] = Some (st, tr, tr_end)
     \<and> reports (tr @ tr_end) =
         [(Some ''https://example.com/index.html'',
           Some (Element 1 [(''rel'', ''manifest''), (''href'', '''')]),
           (''Web app manifest specified with invalid 'href'' @ [CHR 0x27]))]
     \<and> manifestIsSpecified st)"
proof -
  let ?ctx = "\<lparr>fetchContent = (\<lambda>u. Inr \<lparr>statusCode = Some 200\<rparr>)\<rparr>"
  let ?manifest = "\<lparr>element = Element 1 [(''rel'', ''manifest''), (''href'', '''')],
                    resource = ''https://example.com/index.html''\<rparr>"
  let ?valid = "\<lparr>element = Element 3 [(''rel'', ''manifest''), (''href'', ''manifest.json'')],
                 resource = ''https://example.com/index.html''\<rparr>"
  let ?steps =
    "[ElementLink ?manifest,
      ElementLink \<lparr>element = Element 2 [(''rel'', ''stylesheet''), (''href'', ''site.css'')],
                   resource = ''https://example.com/index.html''\<rparr>]"
  have "traverse standard_url ?ctx ?steps \<noteq> None"
    by code_simp
  then obtain st tr tr_end
    where run: "traverse standard_url ?ctx ?steps = Some (st, tr, tr_end)"
    by auto
  have single: "filter is_manifest_link (delivered ?steps) = [?manifest]"
    by (simp add: is_manifest_link_def getAttribute_def)
  have empty: "getAttribute (element ?manifest) ''href'' = None
               \<or> getAttribute (element ?manifest) ''href'' = Some []"
    by (simp add: getAttribute_def)
  from malformed_manifest_still_specified [OF single empty run, of ?valid initial_state]
  have "manifestIsSpecified (fst (manifestExists_start standard_url initial_state ?valid))"
    and "reports (tr @ tr_end) =
          [(Some ''https://example.com/index.html'',
            Some (Element 1 [(''rel'', ''manifest''), (''href'', '''')]),
            (''Web app manifest specified with invalid 'href'' @ [CHR 0x27]))]"
    and "manifestIsSpecified st"
    by (auto simp: getAttribute_def)
  with run show ?thesis by blast
qed

text \<open>
  Claim C8. When the fetch of the manifest URL fails, the handler catches the failure:
  it reports once, \<^verbatim>\<open>Web app manifest file request failed\<close>, and its promise is fulfilled,
  not rejected. The variable is true afterwards, so the end handler of a traversal that
  delivered this element reports nothing, and a traversal with this element as its only
  manifest link has exactly that one finding. That the fetch fails says that it was
  made: \<^verbatim>\<open>url.parse\<close> returned and, where it found no protocol, \<^verbatim>\<open>url.resolve\<close> returned.
\<close>

theorem fetch_failure_reported:
  assumes "getAttribute (element data) ''rel'' = Some ''manifest''"
    and "\<not> manifestIsSpecified st0"
    and "getAttribute (element data) ''href'' = Some href" and "href \<noteq> []"
    and "parse_protocol url href = Inr protocol"
    and "truthy_string protocol \<or> resolve url (resource data) href = Inr resolved"
    and "fetchContent context (if truthy_string protocol then href else resolved) = Inl e"
  shows "manifestExists url context st0 data =
           (st0\<lparr>manifestIsSpecified := True\<rparr>,
            [GetAttribute (element data) ''rel'', GetAttribute (element data) ''href'',
             UrlParse href]
            @ (if truthy_string protocol then [] else [UrlResolve (resource data) href])
            @ [FetchContent (if truthy_string protocol then href else resolved),
               Debug ''Failed to fetch the web app manifest file'',
               Report (Some (resource data)) (Some (element data))
                 ''Web app manifest file request failed''],
            Inr ())
         \<and> (data \<in> set (delivered steps)
              \<and> traverse url context steps = Some (st, tr, tr_end) \<longrightarrow>
                tr_end = [] \<and> manifestIsSpecified st)
         \<and> (filter is_manifest_link (delivered steps) = [data]
              \<and> traverse url context steps = Some (st, tr, tr_end) \<longrightarrow>
                reports (tr @ tr_end) =
                  [(Some (resource data), Some (element data),
                    ''Web app manifest file request failed'')])"
proof (intro conjI)
  show "manifestExists url context st0 data =
           (st0\<lparr>manifestIsSpecified := True\<rparr>,
            [GetAttribute (element data) ''rel'', GetAttribute (element data) ''href'',
             UrlParse href]
            @ (if truthy_string protocol then [] else [UrlResolve (resource data) href])
            @ [FetchContent (if truthy_string protocol then href else resolved),
               Debug ''Failed to fetch the web app manifest file'',
               Report (Some (resource data)) (Some (element data))
                 ''Web app manifest file request failed''],
            Inr ())"
    using assms(7)
    by (simp add: manifestExists_fetch [OF assms(1-6)] resume_failure)
next
  show "data \<in> set (delivered steps)
          \<and> traverse url context steps = Some (st, tr, tr_end) \<longrightarrow>
        tr_end = [] \<and> manifestIsSpecified st"
  proof (rule impI)
    assume run: "data \<in> set (delivered steps)
                 \<and> traverse url context steps = Some (st, tr, tr_end)"
    have "is_manifest_link data"
      using assms(1) by (simp add: is_manifest_link_def)
    with run
    have "manifestIsSpecified (c_state (run_steps url context initial_config steps))"
      by (auto simp: run_steps_state)
    with traverse_Some [of url "context" steps st tr tr_end] run
    show "tr_end = [] \<and> manifestIsSpecified st" by simp
  qed
next
  have fresh: "\<not> manifestIsSpecified initial_state"
    by (simp add: initial_state_def)
  have "reports (fst (snd (manifestExists url context initial_state data))) =
          [(Some (resource data), Some (element data),
            ''Web app manifest file request failed'')]"
    using assms(7)
    by (simp add: manifestExists_reports_fetch [OF assms(1) fresh assms(3-6)] resume_failure)
  with single_manifest_traversal [of steps data url "context" st tr tr_end]
  show "filter is_manifest_link (delivered steps) = [data]
          \<and> traverse url context steps = Some (st, tr, tr_end) \<longrightarrow>
        reports (tr @ tr_end) =
          [(Some (resource data), Some (element data),
            ''Web app manifest file request failed'')]"
    by auto
qed

theorem fetch_failure_reported_witness:
  "manifestExists standard_url \<lparr>fetchContent = (\<lambda>u. Inl (JsError ''ECONNREFUSED''))\<rparr>
     initial_state
     \<lparr>element = Element 2 [(''rel'', ''manifest''), (''href'', ''manifest.json'')],
      resource = ''https://example.com/index.html''\<rparr> =
     (\<lparr>manifestIsSpecified = True\<rparr>,
      [GetAttribute (Element 2 [(''rel'', ''manifest''), (''href'', ''manifest.json'')]) ''rel'',
       GetAttribute (Element 2 [(''rel'', ''manifest''), (''href'', ''manifest.json'')]) ''href'',
       UrlParse ''manifest.json'',
       UrlResolve ''https://example.com/index.html'' ''manifest.json'',
       FetchContent ''https://example.com/manifest.json'',
       Debug ''Failed to fetch the web app manifest file'',
       Report (Some ''https://example.com/index.html'')
         (Some (Element 2 [(''rel'', ''manifest''), (''href'', ''manifest.json'')]))
         ''Web app manifest file request failed''],
      Inr ())
   \<and> (\<exists>st tr.
        traverse standard_url \<lparr>fetchContent = (\<lambda>u. Inl (JsError ''ECONNREFUSED''))\<rparr>
          [ElementLink \<lparr>element = Element 1 [(''rel'', ''stylesheet''), (''href'', ''site.css'')],
                        resource = ''https://example.com/index.html''\<rparr>,
           ElementLink \<lparr>element = Element 2 [(''rel'', ''manifest''), (''href'', ''manifest.json'')],
                        resource = ''https://example.com/index.html''\<rparr>,
           FetchSettled 0] = Some (st, tr, [])
        \<and> manifestIsSpecified st
        \<and> reports tr =
            [(Some ''https://example.com/index.html'',
              Some (Element 2 [(''rel'', ''manifest''), (''href'', ''manifest.json'')]),
              ''Web app manifest file request failed'')])"
proof -
  let ?ctx = "\<lparr>fetchContent = (\<lambda>u. Inl (JsError ''ECONNREFUSED''))\<rparr>"
  let ?manifest = "\<lparr>element = Element 2 [(''rel'', ''manifest''), (''href'', ''manifest.json'')],
                    resource = ''https://example.com/index.html''\<rparr>"
  let ?steps =
    "[ElementLink \<lparr>element = Element 1 [(''rel'', ''stylesheet''), (''href'', ''site.css'')],
                   resource = ''https://example.com/index.html''\<rparr>,
      ElementLink ?manifest, FetchSettled 0]"
  have relative: "parse_protocol standard_url ''manifest.json'' = Inr None"
    by code_simp
  have resolved: "truthy_string None
                  \<or> resolve standard_url (resource ?manifest) ''manifest.json'' =
                      Inr ''https://example.com/manifest.json''"
    by code_simp
  have "traverse standard_url ?ctx ?steps \<noteq> None"
    by code_simp
  then obtain st tr tr_end
    where run: "traverse standard_url ?ctx ?steps = Some (st, tr, tr_end)"
    by auto
  have single: "filter is_manifest_link (delivered ?steps) = [?manifest]"
    by (simp add: is_manifest_link_def getAttribute_def)
  have rel: "getAttribute (element ?manifest) ''rel'' = Some ''manifest''"
    and fresh: "\<not> manifestIsSpecified initial_state"
    and href: "getAttribute (element ?manifest) ''href'' = Some ''manifest.json''"
    and nonempty: "''manifest.json'' \<noteq> []"
    and fails: "fetchContent ?ctx
                  (if truthy_string None then ''manifest.json''
                   else ''https://example.com/manifest.json'') =
                Inl (JsError ''ECONNREFUSED'')"
    by (simp_all add: getAttribute_def initial_state_def)
  note failure =
    fetch_failure_reported [OF rel fresh href nonempty relative resolved fails,
      of ?steps st tr tr_end]
  from failure
  have invocation: "manifestExists standard_url ?ctx initial_state ?manifest =
     (\<lparr>manifestIsSpecified = True\<rparr>,
      [GetAttribute (element ?manifest) ''rel'', GetAttribute (element ?manifest) ''href'',
       UrlParse ''manifest.json'',
       UrlResolve ''https://example.com/index.html'' ''manifest.json'',
       FetchContent ''https://example.com/manifest.json'',
       Debug ''Failed to fetch the web app manifest file'',
       Report (Some ''https://example.com/index.html'') (Some (element ?manifest))
         ''Web app manifest file request failed''],
      Inr ())"
    by (simp add: initial_state_def)
  from failure run single
  have "tr_end = []" and "manifestIsSpecified st"
    and "reports (tr @ tr_end) =
           [(Some ''https://example.com/index.html'', Some (element ?manifest),
             ''Web app manifest file request failed'')]"
    by auto
  with run invocation show ?thesis by auto
qed

text \<open>
  Claim C9. \<^verbatim>\<open>manifestIsSpecified\<close> is monotone: an invocation of the element handler that
  starts with the variable true ends with it true; the end handler returns the variable
  as it found it; hence any list of steps keeps it true, and if it is true after part of
  a traversal it is true when the traversal has ended.
\<close>

theorem manifest_flag_monotone:
  "(manifestIsSpecified st \<longrightarrow>
      manifestIsSpecified (fst (manifestExists url context st data)))
   \<and> fst (manifestWasSpecified st) = st
   \<and> (manifestIsSpecified (c_state c) \<longrightarrow>
        manifestIsSpecified (c_state (run_steps url context c steps)))
   \<and> (manifestIsSpecified (c_state (run_steps url context initial_config before))
        \<and> traverse url context (before @ after) = Some (st', tr, tr_end) \<longrightarrow>
        manifestIsSpecified st')"
proof (intro conjI impI)
  assume "manifestIsSpecified st"
  then have "manifestIsSpecified (fst (manifestExists_start url st data))"
    by (simp add: start_state)
  then show "manifestIsSpecified (fst (manifestExists url context st data))"
    by (auto simp: manifestExists_def split: prod.splits progress.splits)
next
  show "fst (manifestWasSpecified st) = st"
    by (simp add: manifestWasSpecified_def)
next
  assume "manifestIsSpecified (c_state c)"
  then show "manifestIsSpecified (c_state (run_steps url context c steps))"
    by (simp add: run_steps_state)
next
  assume run: "manifestIsSpecified (c_state (run_steps url context initial_config before))
               \<and> traverse url context (before @ after) = Some (st', tr, tr_end)"
  then have "manifestIsSpecified
               (c_state (run_steps url context initial_config (before @ after)))"
    by (simp add: run_steps_append run_steps_state)
  with traverse_Some [of url "context" "before @ after" st' tr tr_end] run
  show "manifestIsSpecified st'" by simp
qed


theorem manifest_flag_monotone_witness:
  "manifestIsSpecified (fst (manifestExists standard_url
       \<lparr>fetchContent = (\<lambda>u. Inr \<lparr>statusCode = Some 200\<rparr>)\<rparr>
       \<lparr>manifestIsSpecified = True\<rparr>
       \<lparr>element = Element 2 [(''rel'', ''manifest''), (''href'', ''other.json'')],
        resource = ''https://example.com/index.html''\<rparr>))
   \<and> manifestIsSpecified (c_state (run_steps standard_url
       \<lparr>fetchContent = (\<lambda>u. Inr \<lparr>statusCode = Some 200\<rparr>)\<rparr>
       \<lparr>c_state = \<lparr>manifestIsSpecified = True\<rparr>, c_pending = [], c_trace = [],
         c_rejected = []\<rparr>
       [ElementLink \<lparr>element = Element 3 [(''rel'', ''icon''), (''href'', ''icon.png'')],
                     resource = ''https://example.com/index.html''\<rparr>,
        ElementLink \<lparr>element = Element 2 [(''rel'', ''manifest''), (''href'', ''other.json'')],
                     resource = ''https://example.com/index.html''\<rparr>]))
   \<and> (\<exists>st' tr tr_end.
        traverse standard_url \<lparr>fetchContent = (\<lambda>u. Inr \<lparr>statusCode = Some 200\<rparr>)\<rparr>
          ([ElementLink \<lparr>element = Element 1 [(''rel'', ''manifest''), (''href'', ''manifest.json'')],
                         resource = ''https://example.com/index.html''\<rparr>]
           @ [ElementLink \<lparr>element = Element 2 [(''rel'', ''manifest''), (''href'', ''other.json'')],
                           resource = ''https://example.com/index.html''\<rparr>,
              FetchSettled 0]) = Some (st', tr, tr_end)
        \<and> manifestIsSpecified st')"
proof -
  let ?ctx = "\<lparr>fetchContent = (\<lambda>u. Inr \<lparr>statusCode = Some 200\<rparr>)\<rparr>"
  let ?first = "\<lparr>element = Element 1 [(''rel'', ''manifest''), (''href'', ''manifest.json'')],
                 resource = ''https://example.com/index.html''\<rparr>"
  let ?second = "\<lparr>element = Element 2 [(''rel'', ''manifest''), (''href'', ''other.json'')],
                  resource = ''https://example.com/index.html''\<rparr>"
  let ?icon = "\<lparr>element = Element 3 [(''rel'', ''icon''), (''href'', ''icon.png'')],
                resource = ''https://example.com/index.html''\<rparr>"
  let ?c = "\<lparr>c_state = \<lparr>manifestIsSpecified = True\<rparr>, c_pending = [], c_trace = [],
         c_rejected = []\<rparr>"
  have "traverse standard_url ?ctx ([ElementLink ?first] @ [ElementLink ?second, FetchSettled 0])
          \<noteq> None"
    by code_simp
  then obtain st' tr tr_end
    where run: "traverse standard_url ?ctx
                  ([ElementLink ?first] @ [ElementLink ?second, FetchSettled 0]) =
                Some (st', tr, tr_end)"
    by auto
  have seen: "manifestIsSpecified
                (c_state (run_steps standard_url ?ctx initial_config [ElementLink ?first]))"
    by code_simp
  from manifest_flag_monotone [of "\<lparr>manifestIsSpecified = True\<rparr>" standard_url ?ctx
      ?second ?c "[ElementLink ?icon, ElementLink ?second]" "[ElementLink ?first]"
      "[ElementLink ?second, FetchSettled 0]" st' tr tr_end] run seen
  show ?thesis by auto
qed

end
